theory Spec2Isabelle
  imports Main
begin

section \<open>The release script \<open>release.py\<close>\<close>

text \<open>
  The script is a command-line dispatcher with four subcommands (\<open>build\<close>, \<open>upload\<close>,
  \<open>check\<close>, \<open>list\<close>) and one shared helper, \<open>build_version_file\<close>. Everything it does
  is an effect on the working directory, on the terminal, on external processes or on
  the network, so the model threads an explicit \<open>world\<close> (the file system and the trace
  of observable actions) through every function and returns Python exceptions as values.
\<close>

subsection \<open>Module constants\<close>

definition PYPI_PACKAGE_NAME :: string where
  "PYPI_PACKAGE_NAME = ''pyo365''"

definition PYPI_URL :: "string \<Rightarrow> string" where
  \<comment> \<open>\<open>'https://pypi.org/pypi/{package}/json'.format(package=p)\<close>\<close>
  "PYPI_URL p = ''https://pypi.org/pypi/'' @ p @ ''/json''"

definition DIST_PATH :: string where
  "DIST_PATH = ''dist''"

definition DIST_PATH_DELETE :: string where
  "DIST_PATH_DELETE = ''dist_delete''"

definition VERSION_FILE_NAME :: string where
  "VERSION_FILE_NAME = ''version.json''"

subsection \<open>Python built-ins the script relies on\<close>

text \<open>
  Strings are lists of characters. The built-ins below are the ones the version resolver
  and the listing call: \<open>str.split\<close> with a one-character separator, \<open>str.join\<close>,
  \<open>int(str)\<close>, \<open>str(int)\<close> and the alignment done by \<open>str.format\<close>. Characters outside
  ASCII (other scripts' digits and spaces, which \<open>int\<close> also accepts) and the
  interpreter's optional cap on the number of digits of a conversion are not modelled.
\<close>

fun str_split :: "char \<Rightarrow> string \<Rightarrow> string list" where
  "str_split sep [] = [[]]"
| "str_split sep (c # cs) =
     (if c = sep then [] # str_split sep cs
      else (let r = str_split sep cs in (c # hd r) # tl r))"

fun str_join :: "string \<Rightarrow> string list \<Rightarrow> string" where
  "str_join sep [] = []"
| "str_join sep [x] = x"
| "str_join sep (x # y # ys) = x @ sep @ str_join sep (y # ys)"

definition is_space :: "char \<Rightarrow> bool" where
  \<comment> \<open>the ASCII characters for which \<open>str.isspace\<close> holds\<close>
  "is_space c = (let n = (of_char c :: nat) in (9 \<le> n \<and> n \<le> 13) \<or> (28 \<le> n \<and> n \<le> 32))"

definition is_digit :: "char \<Rightarrow> bool" where
  "is_digit c = (let n = (of_char c :: nat) in 48 \<le> n \<and> n \<le> 57)"

definition digit_val :: "char \<Rightarrow> nat" where
  "digit_val c = of_char c - 48"

definition digit_char :: "nat \<Rightarrow> char" where
  "digit_char d = char_of (48 + d)"

definition str_strip :: "string \<Rightarrow> string" where
  "str_strip s = rev (dropWhile is_space (rev (dropWhile is_space s)))"

text \<open>
  The digits of a decimal literal, read left to right after a first digit; a single
  underscore is allowed between two digits and nowhere else.
\<close>

fun digits_acc :: "nat \<Rightarrow> string \<Rightarrow> nat option" where
  "digits_acc acc [] = Some acc"
| "digits_acc acc (c # cs) =
     (if is_digit c then digits_acc (acc * 10 + digit_val c) cs
      else if c = CHR ''_'' then
        (case cs of
           [] \<Rightarrow> None
         | d # ds \<Rightarrow> if is_digit d then digits_acc (acc * 10 + digit_val d) ds else None)
      else None)"

definition parse_digits :: "string \<Rightarrow> nat option" where
  "parse_digits s =
     (case s of
        [] \<Rightarrow> None
      | c # cs \<Rightarrow> if is_digit c then digits_acc (digit_val c) cs else None)"

definition py_int :: "string \<Rightarrow> int option" where
  \<comment> \<open>\<open>int(s)\<close> in base ten; \<open>None\<close> stands for the \<open>ValueError\<close> it raises\<close>
  "py_int s =
     (case str_strip s of
        [] \<Rightarrow> None
      | c # cs \<Rightarrow>
          if c = CHR ''-'' then map_option (\<lambda>n. - int n) (parse_digits cs)
          else if c = CHR ''+'' then map_option int (parse_digits cs)
          else map_option int (parse_digits (c # cs)))"

fun str_nat :: "nat \<Rightarrow> string" where
  "str_nat n = (if n < 10 then [digit_char n] else str_nat (n div 10) @ [digit_char (n mod 10)])"

declare str_nat.simps [simp del]

definition py_str :: "int \<Rightarrow> string" where
  \<comment> \<open>\<open>str(i)\<close> for an integer\<close>
  "py_str i = (if i < 0 then CHR ''-'' # str_nat (nat (- i)) else str_nat (nat i))"

definition ljust :: "nat \<Rightarrow> string \<Rightarrow> string" where
  \<comment> \<open>the format specification \<open><n\<close>\<close>
  "ljust n s = s @ replicate (n - length s) CHR '' ''"

definition rjust :: "nat \<Rightarrow> string \<Rightarrow> string" where
  \<comment> \<open>the format specification \<open>>n\<close>\<close>
  "rjust n s = replicate (n - length s) CHR '' '' @ s"

subsection \<open>JSON documents\<close>

text \<open>
  What \<open>json.load\<close> and \<open>response.json()\<close> return: an object is the list of its items
  in document order, with distinct keys. Numbers are integers here; floating-point
  numbers occur in none of the fields the script reads.
\<close>

datatype json =
    JNull
  | JBool bool
  | JInt int
  | JStr string
  | JArr "json list"
  | JObj "(string \<times> json) list"

datatype exn =
    ValueError
  | AttributeError
  | TypeError
  | IndexError
  | JSONDecodeError
  | FileNotFoundError
  | IsADirectoryError
  | NotADirectoryError
  | FileExistsError
  | DirectoryNotEmpty
  | CalledProcessError int "string list"
  | SystemExit int
  | ConnectionError

definition dict_get :: "json \<Rightarrow> string \<Rightarrow> json \<Rightarrow> exn + json" where
  \<comment> \<open>\<open>d.get(k, default)\<close>; only a dict has the method\<close>
  "dict_get d k dflt =
     (case d of
        JObj kvs \<Rightarrow> (case map_of kvs k of None \<Rightarrow> Inr dflt | Some v \<Rightarrow> Inr v)
      | _ \<Rightarrow> Inl AttributeError)"

definition truthy :: "json \<Rightarrow> bool" where
  "truthy j =
     (case j of
        JNull \<Rightarrow> False
      | JBool b \<Rightarrow> b
      | JInt i \<Rightarrow> i \<noteq> 0
      | JStr s \<Rightarrow> s \<noteq> []
      | JArr xs \<Rightarrow> xs \<noteq> []
      | JObj kvs \<Rightarrow> kvs \<noteq> [])"

definition py_iter :: "json \<Rightarrow> exn + json list" where
  \<comment> \<open>the elements a \<open>for\<close> loop visits\<close>
  "py_iter j =
     (case j of
        JArr xs \<Rightarrow> Inr xs
      | JObj kvs \<Rightarrow> Inr (map (\<lambda>kv. JStr (fst kv)) kvs)
      | JStr s \<Rightarrow> Inr (map (\<lambda>c. JStr [c]) s)
      | _ \<Rightarrow> Inl TypeError)"

definition dict_items :: "json \<Rightarrow> exn + (string \<times> json) list" where
  "dict_items j = (case j of JObj kvs \<Rightarrow> Inr kvs | _ \<Rightarrow> Inl AttributeError)"

subsection \<open>The world: file system, trace, environment\<close>

text \<open>
  The working directory maps a name to a file or to a directory, of which only the
  entry names matter. A file holds a JSON document or some other text. The trace records
  each call the script makes to the outside, in order; a process invocation records the
  file system the process starts in.
\<close>

datatype content = JsonDoc json | OtherText

datatype node = File content | Dir "string list"

type_synonym filesystem = "string \<rightharpoonup> node"

datatype event =
    Confirm string
  | Stdout string
  | Rename string string
  | Rmtree string
  | Mkdir string
  | Write string
  | Exec "string list" filesystem
  | Spawn "string list" "(string \<times> string) list" filesystem
  | Wait
  | Get string

record world =
  fs :: filesystem
  trace :: "event list"

text \<open>
  What the script cannot decide: the operator's answer to the prompt, what an external
  process does (whether it starts, its exit status, the file system it leaves), the
  reply of the package index, and the inherited environment variables.
\<close>

datatype proc = NotStarted | Exited int filesystem

record response =
  status_code :: nat
  body :: "json option"

record env =
  confirm_reply :: bool
  run_process :: "string list \<Rightarrow> filesystem \<Rightarrow> proc"
  http_get :: "string \<Rightarrow> response option"
  environ :: "(string \<times> string) list"

type_synonym 'a prog = "world \<Rightarrow> (exn + 'a) \<times> world"

definition emit :: "event \<Rightarrow> world \<Rightarrow> world" where
  "emit e w = w\<lparr>trace := trace w @ [e]\<rparr>"

definition andthen :: "'a prog \<Rightarrow> ('a \<Rightarrow> 'b prog) \<Rightarrow> 'b prog" where
  \<comment> \<open>sequencing: an exception ends the run with the world as it is\<close>
  "andthen m f w = (case m w of (Inl e, w') \<Rightarrow> (Inl e, w') | (Inr a, w') \<Rightarrow> f a w')"

definition skip :: "unit prog" where
  "skip w = (Inr (), w)"

definition raise :: "exn \<Rightarrow> 'a prog" where
  "raise e w = (Inl e, w)"

definition echo :: "string \<Rightarrow> unit prog" where
  \<comment> \<open>\<open>print\<close> and \<open>click.echo\<close>\<close>
  "echo s w = (Inr (), emit (Stdout s) w)"

subsection \<open>\<open>pathlib\<close>, \<open>shutil\<close>, \<open>json\<close> and \<open>subprocess\<close> on the world\<close>

definition path_exists :: "string \<Rightarrow> world \<Rightarrow> bool" where
  "path_exists p w = (fs w p \<noteq> None)"

definition glob_star :: "string \<Rightarrow> world \<Rightarrow> string list" where
  \<comment> \<open>\<open>list(Path(p).glob('*'))\<close>: the entries of a directory, nothing for anything else\<close>
  "glob_star p w = (case fs w p of Some (Dir es) \<Rightarrow> es | _ \<Rightarrow> [])"

definition path_rename :: "string \<Rightarrow> string \<Rightarrow> unit prog" where
  \<comment> \<open>\<open>Path(src).rename(dst)\<close> with the rules of POSIX \<open>rename\<close>\<close>
  "path_rename src dst w =
     (let w1 = emit (Rename src dst) w in
      case fs w src of
        None \<Rightarrow> (Inl FileNotFoundError, w1)
      | Some n \<Rightarrow>
          if src = dst then (Inr (), w1)
          else
            (case (n, fs w dst) of
               (Dir _, Some (File _)) \<Rightarrow> (Inl NotADirectoryError, w1)
             | (Dir _, Some (Dir (e # es))) \<Rightarrow> (Inl DirectoryNotEmpty, w1)
             | (File _, Some (Dir _)) \<Rightarrow> (Inl IsADirectoryError, w1)
             | _ \<Rightarrow> (Inr (), w1\<lparr>fs := (fs w)(src := None, dst \<mapsto> n)\<rparr>)))"

definition rmtree :: "string \<Rightarrow> unit prog" where
  "rmtree p w =
     (let w1 = emit (Rmtree p) w in
      case fs w p of
        None \<Rightarrow> (Inl FileNotFoundError, w1)
      | Some (File _) \<Rightarrow> (Inl NotADirectoryError, w1)
      | Some (Dir _) \<Rightarrow> (Inr (), w1\<lparr>fs := (fs w)(p := None)\<rparr>))"

definition path_mkdir :: "string \<Rightarrow> unit prog" where
  "path_mkdir p w =
     (let w1 = emit (Mkdir p) w in
      case fs w p of
        None \<Rightarrow> (Inr (), w1\<lparr>fs := (fs w)(p \<mapsto> Dir [])\<rparr>)
      | Some _ \<Rightarrow> (Inl FileExistsError, w1))"

definition json_load :: "string \<Rightarrow> json prog" where
  \<comment> \<open>\<open>with Path(p).open('r') as f: json.load(f)\<close>\<close>
  "json_load p w =
     (case fs w p of
        None \<Rightarrow> (Inl FileNotFoundError, w)
      | Some (Dir _) \<Rightarrow> (Inl IsADirectoryError, w)
      | Some (File OtherText) \<Rightarrow> (Inl JSONDecodeError, w)
      | Some (File (JsonDoc j)) \<Rightarrow> (Inr j, w))"

definition json_dump :: "string \<Rightarrow> json \<Rightarrow> unit prog" where
  \<comment> \<open>\<open>with Path(p).open('w') as f: json.dump(j, f)\<close>\<close>
  "json_dump p j w =
     (case fs w p of
        Some (Dir _) \<Rightarrow> (Inl IsADirectoryError, w)
      | _ \<Rightarrow> (Inr (), (emit (Write p) w)\<lparr>fs := (fs w)(p \<mapsto> File (JsonDoc j))\<rparr>))"

definition check_call :: "env \<Rightarrow> string list \<Rightarrow> unit prog" where
  \<comment> \<open>\<open>subprocess.check_call(args)\<close>: a non-zero exit status is an exception\<close>
  "check_call e args w =
     (let w1 = emit (Exec args (fs w)) w in
      case run_process e args (fs w) of
        NotStarted \<Rightarrow> (Inl FileNotFoundError, w1)
      | Exited code fs' \<Rightarrow>
          (if code = 0 then Inr () else Inl (CalledProcessError code args), w1\<lparr>fs := fs'\<rparr>))"

definition Popen :: "env \<Rightarrow> string list \<Rightarrow> (string \<times> string) list \<Rightarrow> (int \<times> filesystem) prog" where
  \<comment> \<open>\<open>subprocess.Popen(args, env=vars)\<close>: the handle of the started process, here the
      exit status it will end with and the file system it will leave\<close>
  "Popen e args vars w =
     (let w1 = emit (Spawn args vars (fs w)) w in
      case run_process e args (fs w) of
        NotStarted \<Rightarrow> (Inl FileNotFoundError, w1)
      | Exited code fs' \<Rightarrow> (Inr (code, fs'), w1))"

definition wait :: "int \<times> filesystem \<Rightarrow> int prog" where
  \<comment> \<open>\<open>p.wait()\<close>: blocks until the process has ended and returns its exit status\<close>
  "wait p w = (Inr (fst p), (emit Wait w)\<lparr>fs := snd p\<rparr>)"

subsection \<open>\<open>build_version_file\<close>\<close>

fun int_parts :: "string list \<Rightarrow> exn + int list" where
  \<comment> \<open>\<open>[int(part) for part in parts]\<close>: the first part that is no integer raises\<close>
  "int_parts [] = Inr []"
| "int_parts (part # parts) =
     (case py_int part of
        None \<Rightarrow> Inl ValueError
      | Some n \<Rightarrow> (case int_parts parts of Inl e \<Rightarrow> Inl e | Inr ns \<Rightarrow> Inr (n # ns)))"

definition incr_last :: "int list \<Rightarrow> exn + int list" where
  \<comment> \<open>\<open>version_parts[-1] += 1\<close>\<close>
  "incr_last xs =
     (if xs = [] then Inl IndexError
      else Inr (xs[length xs - 1 := xs ! (length xs - 1) + 1]))"

definition auto_version :: "json \<Rightarrow> exn + string" where
  \<comment> \<open>lines 33 to 37: the next version, from the document read from the version file\<close>
  "auto_version version =
     (case dict_get version ''version'' JNull of
        Inl e \<Rightarrow> Inl e
      | Inr (JStr current_version) \<Rightarrow>
          (case int_parts (str_split CHR ''.'' current_version) of
             Inl e \<Rightarrow> Inl e
           | Inr version_parts \<Rightarrow>
               (case incr_last version_parts of
                  Inl e \<Rightarrow> Inl e
                | Inr parts' \<Rightarrow> Inr (str_join ''.'' (map py_str parts'))))
      | Inr _ \<Rightarrow> Inl AttributeError)"

definition version_doc :: "string \<Rightarrow> json" where
  \<comment> \<open>\<open>{'version': provided_version}\<close>\<close>
  "version_doc v = JObj [(''version'', JStr v)]"

definition build_version_file :: "string \<Rightarrow> unit prog" where
  "build_version_file provided_version =
     (if provided_version = ''auto'' then
        andthen (json_load VERSION_FILE_NAME) (\<lambda>version.
          case auto_version version of
            Inl e \<Rightarrow> raise e
          | Inr v \<Rightarrow> json_dump VERSION_FILE_NAME (version_doc v))
      else json_dump VERSION_FILE_NAME (version_doc provided_version))"

subsection \<open>\<open>build\<close>\<close>

definition nonempty_dir :: "string \<Rightarrow> world \<Rightarrow> bool" where
  \<comment> \<open>\<open>p.exists() and list(p.glob('*'))\<close>\<close>
  "nonempty_dir p w = (path_exists p w \<and> glob_star p w \<noteq> [])"

definition confirm :: "env \<Rightarrow> string \<Rightarrow> bool prog" where
  \<comment> \<open>\<open>click.confirm(prompt)\<close>\<close>
  "confirm e prompt w = (Inr (confirm_reply e), emit (Confirm prompt) w)"

definition clear_dist :: "unit prog" where
  \<comment> \<open>lines 56 to 58\<close>
  "clear_dist =
     andthen (path_rename DIST_PATH DIST_PATH_DELETE) (\<lambda>_.
     andthen (rmtree DIST_PATH_DELETE) (\<lambda>_.
     path_mkdir DIST_PATH))"

definition bdist_wheel_args :: "string list" where
  "bdist_wheel_args = [''python'', ''setup.py'', ''bdist_wheel'']"

definition sdist_args :: "string list" where
  "sdist_args = [''python'', ''setup.py'', ''sdist'', ''--formats=gztar'']"

definition build :: "env \<Rightarrow> bool \<Rightarrow> string \<Rightarrow> unit prog" where
  "build e force version =
     andthen
       (\<lambda>w. if nonempty_dir DIST_PATH w then
              (if force then clear_dist w
               else andthen (confirm e (DIST_PATH @ '' is not empty - delete contents?''))
                      (\<lambda>yes. if yes then clear_dist
                             else andthen (echo ''Aborting'') (\<lambda>_. raise (SystemExit 1))) w)
            else skip w)
       (\<lambda>_. andthen (if version \<noteq> [] then build_version_file version else skip)
       (\<lambda>_. andthen (check_call e bdist_wheel_args)
       (\<lambda>_. check_call e sdist_args)))"

subsection \<open>\<open>upload\<close> and \<open>check\<close>\<close>

definition no_dist_message :: string where
  "no_dist_message =
     ''No distribution files found. Please run '' @ [CHR 0x27] @ ''build'' @ [CHR 0x27] @
     '' command first''"

definition twine_release_args :: "string list" where
  "twine_release_args = [''twine'', ''upload'', ''dist/*'']"

definition twine_test_args :: "string list" where
  "twine_test_args =
     [''twine'', ''upload'', ''--repository-url'', ''https://test.pypi.org/legacy/'', ''dist/*'']"

definition twine_upload :: "env \<Rightarrow> bool \<Rightarrow> unit prog" where
  \<comment> \<open>lines 87 to 96: the exit status that \<open>wait\<close> returns is dropped\<close>
  "twine_upload e release =
     andthen (Popen e (if release then twine_release_args else twine_test_args) (environ e))
       (\<lambda>p. andthen (wait p) (\<lambda>_. skip))"

definition upload :: "env \<Rightarrow> bool \<Rightarrow> bool \<Rightarrow> string \<Rightarrow> unit prog" where
  "upload e release rebuild version w =
     (if \<not> rebuild then
        (if \<not> path_exists DIST_PATH w \<or> glob_star DIST_PATH w = [] then echo no_dist_message w
         else twine_upload e release w)
      else andthen (build e True version) (\<lambda>_. twine_upload e release) w)"

definition check :: "env \<Rightarrow> unit prog" where
  "check e w =
     (if \<not> path_exists DIST_PATH w \<or> glob_star DIST_PATH w = [] then echo no_dist_message w
      else check_call e [''twine'', ''check'', ''dist/*''] w)"

subsection \<open>\<open>list_releases\<close>\<close>

definition response_ok :: "response \<Rightarrow> bool" where
  \<comment> \<open>the truth value of a \<open>requests\<close> response: its status is no client or server error\<close>
  "response_ok r = (\<not> (400 \<le> status_code r \<and> status_code r < 600))"

definition response_json :: "response \<Rightarrow> exn + json" where
  "response_json r = (case body r of None \<Rightarrow> Inl JSONDecodeError | Some j \<Rightarrow> Inr j)"

fun scan_release :: "json list \<Rightarrow> json list \<Rightarrow> json \<Rightarrow> exn + json list \<times> json" where
  \<comment> \<open>the inner loop, with \<open>release_formats\<close> and \<open>published_on_date\<close> as accumulators\<close>
  "scan_release [] release_formats published_on_date = Inr (release_formats, published_on_date)"
| "scan_release (fmt # rest) release_formats published_on_date =
     (case dict_get fmt ''packagetype'' JNull of
        Inl e \<Rightarrow> Inl e
      | Inr t \<Rightarrow>
          (case dict_get fmt ''upload_time'' JNull of
             Inl e \<Rightarrow> Inl e
           | Inr d \<Rightarrow> scan_release rest (release_formats @ [t]) d))"

fun join_strs :: "json list \<Rightarrow> exn + string list" where
  \<comment> \<open>\<open>str.join\<close> takes strings only\<close>
  "join_strs [] = Inr []"
| "join_strs (JStr s # js) = (case join_strs js of Inl e \<Rightarrow> Inl e | Inr ss \<Rightarrow> Inr (s # ss))"
| "join_strs (_ # js) = Inl TypeError"

definition format_right :: "nat \<Rightarrow> json \<Rightarrow> exn + string" where
  \<comment> \<open>\<open>'{:>n}'.format(v)\<close>; \<open>None\<close>, lists and dicts support no format specification\<close>
  "format_right n v =
     (case v of
        JStr s \<Rightarrow> Inr (rjust n s)
      | JInt i \<Rightarrow> Inr (rjust n (py_str i))
      | JBool b \<Rightarrow> Inr (rjust n (if b then ''1'' else ''0''))
      | _ \<Rightarrow> Inl TypeError)"

definition release_line :: "string \<Rightarrow> json \<Rightarrow> exn + string" where
  \<comment> \<open>lines 122 to 129, up to the \<open>print\<close>: the line for one version\<close>
  "release_line version release =
     (case py_iter release of
        Inl e \<Rightarrow> Inl e
      | Inr fmts \<Rightarrow>
          (case scan_release fmts [] JNull of
             Inl e \<Rightarrow> Inl e
           | Inr (release_formats, published_on_date) \<Rightarrow>
               (case join_strs release_formats of
                  Inl e \<Rightarrow> Inl e
                | Inr labels \<Rightarrow>
                    (case format_right 15 published_on_date of
                       Inl e \<Rightarrow> Inl e
                     | Inr date \<Rightarrow>
                         Inr (ljust 10 version @ date @ rjust 25 (str_join '' | '' labels))))))"

fun print_releases :: "(string \<times> json) list \<Rightarrow> unit prog" where
  \<comment> \<open>the outer loop over \<open>releases_dict.items()\<close>\<close>
  "print_releases [] w = (Inr (), w)"
| "print_releases ((version, release) # rest) w =
     (case release_line version release of
        Inl e \<Rightarrow> (Inl e, w)
      | Inr line \<Rightarrow> print_releases rest (emit (Stdout line) w))"

definition no_releases_message :: string where
  "no_releases_message = ''No releases found for '' @ PYPI_PACKAGE_NAME"

definition not_found_message :: string where
  "not_found_message =
     ''Package '' @ [CHR 0x22] @ PYPI_PACKAGE_NAME @ [CHR 0x22] @ '' not found on Pypi.org''"

definition list_releases :: "env \<Rightarrow> unit prog" where
  "list_releases e w =
     (let url = PYPI_URL PYPI_PACKAGE_NAME; w1 = emit (Get url) w in
      case http_get e url of
        None \<Rightarrow> (Inl ConnectionError, w1)
      | Some response \<Rightarrow>
          if response_ok response then
            (case response_json response of
               Inl e \<Rightarrow> (Inl e, w1)
             | Inr data \<Rightarrow>
                 (case dict_get data ''releases'' (JObj []) of
                    Inl e \<Rightarrow> (Inl e, w1)
                  | Inr releases_dict \<Rightarrow>
                      if truthy releases_dict then
                        (case dict_items releases_dict of
                           Inl e \<Rightarrow> (Inl e, w1)
                         | Inr items \<Rightarrow> print_releases items w1)
                      else echo no_releases_message w1))
          else echo not_found_message w1)"

subsection \<open>The exit status of the script\<close>

definition exit_status :: "exn + unit \<Rightarrow> int" where
  \<comment> \<open>a normal return is status 0, \<open>sys.exit(n)\<close> is \<open>n\<close>, an uncaught exception is 1\<close>
  "exit_status r = (case r of Inr _ \<Rightarrow> 0 | Inl (SystemExit n) \<Rightarrow> n | Inl _ \<Rightarrow> 1)"

subsection \<open>The value of a digit string\<close>

definition digits_value :: "nat \<Rightarrow> string \<Rightarrow> nat" where
  \<comment> \<open>what \<open>digits_acc\<close> computes on a string of digits; used in the proofs only\<close>
  "digits_value = foldl (\<lambda>a c. a * 10 + digit_val c)"

subsection \<open>Observations on a run\<close>

text \<open>
  The properties below speak about the events a run adds to the trace, about the first
  external process it starts (with the events before it and the file system the process
  finds), and about the events of directory preparation.
\<close>

definition new_events :: "world \<Rightarrow> world \<Rightarrow> event list" where
  "new_events w w' = drop (length (trace w)) (trace w')"

fun first_exec :: "event list \<Rightarrow> (event list \<times> string list \<times> filesystem) option" where
  "first_exec [] = None"
| "first_exec (Exec args snap # evs) = Some ([], args, snap)"
| "first_exec (ev # evs) =
     (case first_exec evs of
        None \<Rightarrow> None
      | Some (before, args, snap) \<Rightarrow> Some (ev # before, args, snap))"

fun is_preparation :: "event \<Rightarrow> bool" where
  "is_preparation (Confirm _) = True"
| "is_preparation (Rename _ _) = True"
| "is_preparation (Rmtree _) = True"
| "is_preparation (Mkdir _) = True"
| "is_preparation _ = False"

definition build_tools :: "env \<Rightarrow> unit prog" where
  \<comment> \<open>lines 66 to 68: the two external build tools, one after the other\<close>
  "build_tools e = andthen (check_call e bdist_wheel_args) (\<lambda>_. check_call e sdist_args)"


subsection \<open>Releases as the package index describes them\<close>

text \<open>
  An artifact descriptor is an object with a string \<open>packagetype\<close> and a string
  \<open>upload_time\<close>; a version is released when it maps to a non-empty list of artifact
  descriptors. \<open>expected_line\<close> is the line the listing is to print for such a version:
  the version, the upload time of the last artifact of the list and the labels in list
  order, joined by \<open>' | '\<close>, each padded to its column.
\<close>

definition label_of :: "json \<Rightarrow> string option" where
  "label_of fmt =
     (case fmt of
        JObj kvs \<Rightarrow> (case map_of kvs ''packagetype'' of Some (JStr s) \<Rightarrow> Some s | _ \<Rightarrow> None)
      | _ \<Rightarrow> None)"

definition time_of :: "json \<Rightarrow> string option" where
  "time_of fmt =
     (case fmt of
        JObj kvs \<Rightarrow> (case map_of kvs ''upload_time'' of Some (JStr s) \<Rightarrow> Some s | _ \<Rightarrow> None)
      | _ \<Rightarrow> None)"

definition artifact :: "json \<Rightarrow> bool" where
  "artifact fmt = (label_of fmt \<noteq> None \<and> time_of fmt \<noteq> None)"

definition expected_line :: "string \<Rightarrow> json list \<Rightarrow> string" where
  "expected_line version fmts =
     ljust 10 version @ rjust 15 (the (time_of (last fmts))) @
     rjust 25 (str_join '' | '' (map (\<lambda>fmt. the (label_of fmt)) fmts))"

definition released :: "string \<times> json \<Rightarrow> bool" where
  "released item = (case snd item of JArr fmts \<Rightarrow> fmts \<noteq> [] \<and> list_all artifact fmts | _ \<Rightarrow> False)"

definition item_line :: "string \<times> json \<Rightarrow> string" where
  "item_line item = (case snd item of JArr fmts \<Rightarrow> expected_line (fst item) fmts | _ \<Rightarrow> [])"

definition example_release :: json where
  "example_release =
     JArr [JObj [(''packagetype'', JStr ''sdist''), (''upload_time'', JStr ''2020-01-01T00:00:00'')],
           JObj [(''packagetype'', JStr ''bdist_wheel''),
                 (''upload_time'', JStr ''2020-01-01T00:05:00'')]]"

section \<open>Properties\<close>

subsection \<open>Decimal numerals are read back as written\<close>

lemma digit_char_is_digit: "d < 10 \<Longrightarrow> is_digit (digit_char d)"
  by (simp add: is_digit_def digit_char_def)

lemma digit_val_digit_char: "d < 10 \<Longrightarrow> digit_val (digit_char d) = d"
  by (simp add: digit_val_def digit_char_def)

lemma is_digit_not_space: "is_digit c \<Longrightarrow> \<not> is_space c"
  by (auto simp: is_digit_def is_space_def Let_def)

lemma is_digit_not_sign: "is_digit c \<Longrightarrow> c \<noteq> CHR ''-'' \<and> c \<noteq> CHR ''+'' \<and> c \<noteq> CHR ''.''"
  by (auto simp: is_digit_def)

lemma str_nat_digits: "c \<in> set (str_nat n) \<Longrightarrow> is_digit c"
proof (induction n arbitrary: c rule: str_nat.induct)
  case (1 n)
  show ?case
  proof (cases "n < 10")
    case True
    with "1.prems" show ?thesis
      by (simp add: str_nat.simps [of n] digit_char_is_digit)
  next
    case False
    with "1.prems" "1.IH" show ?thesis
      by (auto simp: str_nat.simps [of n] digit_char_is_digit)
  qed
qed

lemma str_nat_nonempty: "str_nat n \<noteq> []"
  by (subst str_nat.simps) simp

lemma digits_acc_all_digits:
  "\<forall>c \<in> set ds. is_digit c \<Longrightarrow> digits_acc acc ds = Some (digits_value acc ds)"
  by (induction ds arbitrary: acc) (simp_all add: digits_value_def)

lemma digits_value_str_nat: "digits_value 0 (str_nat n) = n"
proof (induction n rule: str_nat.induct)
  case (1 n)
  show ?case
  proof (cases "n < 10")
    case True
    then show ?thesis
      by (simp add: str_nat.simps [of n] digits_value_def digit_val_digit_char)
  next
    case False
    with "1.IH" show ?thesis
      by (simp add: str_nat.simps [of n] digits_value_def digit_val_digit_char)
  qed
qed

lemma parse_digits_all_digits:
  assumes "s \<noteq> []" and "\<forall>c \<in> set s. is_digit c"
  shows "parse_digits s = Some (digits_value 0 s)"
proof (cases s)
  case Nil
  with assms show ?thesis by simp
next
  case (Cons c cs)
  with assms show ?thesis
    by (simp add: parse_digits_def digits_acc_all_digits digits_value_def)
qed

lemma str_strip_id:
  assumes "s \<noteq> []" and "\<not> is_space (hd s)" and "\<not> is_space (last s)"
  shows "str_strip s = s"
proof -
  from assms have a: "dropWhile is_space s = s"
    by (cases s) simp_all
  from assms have "dropWhile is_space (rev s) = rev s"
    by (cases "rev s") (simp_all add: hd_rev)
  with a show ?thesis by (simp add: str_strip_def)
qed

lemma py_int_str_nat: "py_int (str_nat n) = Some (int n)"
proof -
  let ?s = "str_nat n"
  have ne: "?s \<noteq> []" by (rule str_nat_nonempty)
  have dig: "\<forall>c \<in> set ?s. is_digit c" by (simp add: str_nat_digits)
  from ne dig have "is_digit (hd ?s)" and "is_digit (last ?s)" by simp_all
  then have strip: "str_strip ?s = ?s"
    using ne by (intro str_strip_id) (simp_all add: is_digit_not_space)
  obtain c cs where s: "?s = c # cs" using ne by (cases ?s) auto
  with dig have "is_digit c" by simp
  then have "c \<noteq> CHR ''-''" and "c \<noteq> CHR ''+''" using is_digit_not_sign by blast+
  moreover have "parse_digits (c # cs) = Some n"
    using parse_digits_all_digits [OF ne dig] digits_value_str_nat [of n] by (simp add: s)
  ultimately show ?thesis using strip by (simp add: py_int_def s)
qed


lemma str_split_no_sep: "sep \<notin> set x \<Longrightarrow> str_split sep x = [x]"
  by (induction x) (auto simp: Let_def)

lemma str_split_append:
  "sep \<notin> set x \<Longrightarrow> str_split sep (x @ sep # rest) = x # str_split sep rest"
  by (induction x) (auto simp: Let_def)

lemma str_split_join:
  "xs \<noteq> [] \<Longrightarrow> \<forall>x \<in> set xs. sep \<notin> set x \<Longrightarrow> str_split sep (str_join [sep] xs) = xs"
proof (induction "[sep]" xs rule: str_join.induct)
  case 1
  then show ?case by simp
next
  case (2 x)
  then show ?case by (simp add: str_split_no_sep)
next
  case (3 x y ys)
  then show ?case by (simp add: str_split_append)
qed

lemma int_parts_str_nat: "int_parts (map str_nat ns) = Inr (map int ns)"
  by (induction ns) (simp_all add: py_int_str_nat)

lemma incr_last_nats:
  "ns \<noteq> [] \<Longrightarrow> incr_last (map int ns) = Inr (map int (butlast ns @ [last ns + 1]))"
proof (induction ns rule: rev_induct)
  case Nil
  then show ?case by simp
next
  case (snoc n ns)
  have "(map int ns @ [int n])[length ns := int n + 1] = map int ns @ [int n + 1]"
    by (metis length_map list_update_length)
  then show ?case
    by (simp add: incr_last_def nth_append)
qed

lemma py_str_nonneg: "0 \<le> i \<Longrightarrow> py_str i = str_nat (nat i)"
  by (simp add: py_str_def)

lemma auto_version_nats:
  assumes "ns \<noteq> []"
    and "map_of kvs ''version'' = Some (JStr (str_join ''.'' (map str_nat ns)))"
  shows "auto_version (JObj kvs) = Inr (str_join ''.'' (map str_nat (butlast ns @ [last ns + 1])))"
proof -
  define ms where "ms = butlast ns @ [last ns + 1]"
  have "\<forall>x \<in> set (map str_nat ns). CHR ''.'' \<notin> set x"
    using str_nat_digits is_digit_not_sign by auto
  with assms(1) have a: "str_split CHR ''.'' (str_join ''.'' (map str_nat ns)) = map str_nat ns"
    by (intro str_split_join) simp_all
  have b: "incr_last (map int ns) = Inr (map int ms)"
    unfolding ms_def by (rule incr_last_nats [OF assms(1)])
  have c: "map py_str (map int ms) = map str_nat ms"
    by (induction ms) (simp_all add: py_str_def)
  have "auto_version (JObj kvs) = Inr (str_join ''.'' (map str_nat ms))"
    using assms(2) by (simp add: auto_version_def dict_get_def a int_parts_str_nat b c del: map_map)
  then show ?thesis by (simp only: ms_def)
qed

subsection \<open>The version resolver\<close>

text \<open>
  C1. Auto-increment: when the version file holds a JSON object whose \<open>version\<close> is the
  dotted string of the non-negative integers \<open>ns\<close>, each written in decimal without sign
  or leading zeros (for \<open>ns = [X, Y, Z]\<close>, the string \<open>X.Y.Z\<close>), \<open>build_version_file 'auto'\<close> returns normally and writes back the object
  whose \<open>version\<close> is the dotted string of the same integers with only the last one
  incremented by one; nothing else in the world changes.
\<close>

theorem auto_increment_last_component:
  assumes "ns \<noteq> []"
    and "fs w VERSION_FILE_NAME = Some (File (JsonDoc (JObj kvs)))"
    and "map_of kvs ''version'' = Some (JStr (str_join ''.'' (map str_nat ns)))"
  shows "build_version_file ''auto'' w =
           (Inr (),
            w\<lparr>fs := (fs w)(VERSION_FILE_NAME \<mapsto>
                    File (JsonDoc (version_doc
                      (str_join ''.'' (map str_nat (butlast ns @ [last ns + 1])))))),
              trace := trace w @ [Write VERSION_FILE_NAME]\<rparr>)"
  using assms(2) auto_version_nats [OF assms(1,3)]
  by (simp add: build_version_file_def andthen_def json_load_def json_dump_def emit_def)

theorem auto_increment_last_component_witness:
  "build_version_file ''auto''
     \<lparr>fs = [VERSION_FILE_NAME \<mapsto> File (JsonDoc (JObj [(''version'', JStr ''1.2.9'')]))],
      trace = []\<rparr> =
   (Inr (),
    \<lparr>fs = [VERSION_FILE_NAME \<mapsto> File (JsonDoc (JObj [(''version'', JStr ''1.2.10'')]))],
     trace = [Write VERSION_FILE_NAME]\<rparr>)"
proof -
  have before: "str_join ''.'' (map str_nat [1, 2, 9]) = ''1.2.9''"
    by code_simp
  have after: "str_join ''.'' (map str_nat (butlast [1, 2, 9] @ [last [1, 2, 9] + 1])) = ''1.2.10''"
    by code_simp
  show ?thesis
    using auto_increment_last_component [of "[1, 2, 9]"
      "\<lparr>fs = [VERSION_FILE_NAME \<mapsto> File (JsonDoc (JObj [(''version'', JStr ''1.2.9'')]))],
        trace = []\<rparr>"
      "[(''version'', JStr ''1.2.9'')]"]
    unfolding before after
    by (simp add: version_doc_def)
qed


lemma digits_acc_chars:
  "digits_acc acc s = Some n \<Longrightarrow> c \<in> set s \<Longrightarrow> is_digit c \<or> c = CHR ''_''"
  by (induction acc s rule: digits_acc.induct) (auto split: if_splits list.splits)

lemma parse_digits_chars:
  "parse_digits s = Some n \<Longrightarrow> c \<in> set s \<Longrightarrow> is_digit c \<or> c = CHR ''_''"
  by (auto simp: parse_digits_def split: list.splits if_splits dest: digits_acc_chars)

lemma dropWhile_chars: "c \<in> set s \<Longrightarrow> c \<in> set (dropWhile P s) \<or> P c"
  by (induction s) auto

lemma str_strip_chars: "c \<in> set s \<Longrightarrow> c \<in> set (str_strip s) \<or> is_space c"
  using dropWhile_chars [of c s is_space] dropWhile_chars [of c "rev (dropWhile is_space s)" is_space]
  by (auto simp: str_strip_def)

lemma py_int_chars:
  assumes "py_int s = Some i" and "c \<in> set s"
  shows "is_digit c \<or> is_space c \<or> c = CHR ''_'' \<or> c = CHR ''-'' \<or> c = CHR ''+''"
proof -
  from assms(2) consider "is_space c" | "c \<in> set (str_strip s)"
    using str_strip_chars by blast
  then show ?thesis
  proof cases
    case 1
    then show ?thesis by simp
  next
    case 2
    with assms(1) show ?thesis
      by (auto simp: py_int_def split: list.splits if_splits dest: parse_digits_chars)
  qed
qed



subsection \<open>The build operation\<close>

lemma andthen_assoc_build:
  "build e force version =
     andthen
       (\<lambda>w. if nonempty_dir DIST_PATH w then
              (if force then clear_dist w
               else andthen (confirm e (DIST_PATH @ '' is not empty - delete contents?''))
                      (\<lambda>yes. if yes then clear_dist
                             else andthen (echo ''Aborting'') (\<lambda>_. raise (SystemExit 1))) w)
            else skip w)
       (\<lambda>_. andthen (if version \<noteq> [] then build_version_file version else skip)
       (\<lambda>_. build_tools e))"
  by (simp add: build_def build_tools_def)

lemma names_distinct:
  "VERSION_FILE_NAME \<noteq> DIST_PATH" "VERSION_FILE_NAME \<noteq> DIST_PATH_DELETE"
  "DIST_PATH \<noteq> DIST_PATH_DELETE" "DIST_PATH \<noteq> VERSION_FILE_NAME"
  "DIST_PATH_DELETE \<noteq> VERSION_FILE_NAME" "DIST_PATH_DELETE \<noteq> DIST_PATH"
  by (simp_all add: VERSION_FILE_NAME_def DIST_PATH_def DIST_PATH_DELETE_def)

lemma nonempty_dir_iff:
  "nonempty_dir p w \<longleftrightarrow> (\<exists>x xs. fs w p = Some (Dir (x # xs)))"
  by (auto simp: nonempty_dir_def path_exists_def glob_star_def neq_Nil_conv
      split: option.splits node.splits)

lemma clear_dist_cases:
  assumes "nonempty_dir DIST_PATH w" and "clear_dist w = (r, w')"
  shows "(r = Inr () \<and>
          w' = w\<lparr>fs := (fs w)(DIST_PATH_DELETE := None, DIST_PATH \<mapsto> Dir []),
                 trace := trace w @ [Rename DIST_PATH DIST_PATH_DELETE, Rmtree DIST_PATH_DELETE,
                                     Mkdir DIST_PATH]\<rparr>)
       \<or> ((\<exists>x. r = Inl x) \<and> w' = w\<lparr>trace := trace w @ [Rename DIST_PATH DIST_PATH_DELETE]\<rparr>)"
  using assms
  by (auto simp: clear_dist_def andthen_def path_rename_def rmtree_def path_mkdir_def emit_def
      nonempty_dir_def path_exists_def glob_star_def DIST_PATH_def DIST_PATH_DELETE_def Let_def
      fun_upd_twist
      split: option.splits node.splits list.splits if_splits)

lemma clear_dist_free:
  assumes "nonempty_dir DIST_PATH w"
    and "fs w DIST_PATH_DELETE = None \<or> fs w DIST_PATH_DELETE = Some (Dir [])"
  shows "clear_dist w =
          (Inr (),
           w\<lparr>fs := (fs w)(DIST_PATH_DELETE := None, DIST_PATH \<mapsto> Dir []),
             trace := trace w @ [Rename DIST_PATH DIST_PATH_DELETE, Rmtree DIST_PATH_DELETE,
                                 Mkdir DIST_PATH]\<rparr>)"
  using assms
  by (auto simp: clear_dist_def andthen_def path_rename_def rmtree_def path_mkdir_def emit_def
      nonempty_dir_def path_exists_def glob_star_def DIST_PATH_def DIST_PATH_DELETE_def Let_def
      fun_upd_twist
      split: option.splits node.splits list.splits if_splits)

lemma build_version_file_cases:
  assumes "build_version_file v w = (r, w')"
  shows "((\<exists>x. r = Inl x) \<and> w' = w)
       \<or> (r = Inr () \<and>
          (\<exists>d. fs w' = (fs w)(VERSION_FILE_NAME \<mapsto> File (JsonDoc (version_doc d)))) \<and>
          trace w' = trace w @ [Write VERSION_FILE_NAME])"
  using assms
  by (auto simp: build_version_file_def andthen_def json_load_def json_dump_def raise_def emit_def
      split: if_splits option.splits node.splits content.splits sum.splits list.splits)

lemma build_tools_trace:
  "\<exists>rest. trace (snd (build_tools e w)) = trace w @ Exec bdist_wheel_args (fs w) # rest
          \<and> filter is_preparation rest = []"
  by (auto simp: build_tools_def andthen_def check_call_def emit_def Let_def
      split: proc.splits)

lemma check_call_keeps:
  assumes "\<forall>args f c f'. run_process e args f = Exited c f' \<longrightarrow> f' p = f p"
  shows "fs (snd (check_call e args w)) p = fs w p"
  using assms by (auto simp: check_call_def emit_def Let_def split: proc.splits)

lemma build_tools_keeps:
  assumes "\<forall>args f c f'. run_process e args f = Exited c f' \<longrightarrow> f' p = f p"
  shows "fs (snd (build_tools e w)) p = fs w p"
proof (cases "check_call e bdist_wheel_args w")
  case (Pair r1 w1)
  with check_call_keeps [OF assms, of bdist_wheel_args w] have "fs w1 p = fs w p" by simp
  with Pair check_call_keeps [OF assms, of sdist_args w1] show ?thesis
    by (cases r1) (simp_all add: build_tools_def andthen_def)
qed

lemmas run_defs =
  build_def andthen_def skip_def raise_def echo_def emit_def confirm_def clear_dist_def
  nonempty_dir_def path_exists_def glob_star_def path_rename_def rmtree_def path_mkdir_def
  json_load_def json_dump_def check_call_def build_version_file_def version_doc_def
  DIST_PATH_def DIST_PATH_DELETE_def VERSION_FILE_NAME_def

text \<open>
  C3. Declined confirmation: when the output directory is not empty, the force flag is off
  and the operator answers no, \<open>build\<close> shows the prompt, prints \<open>Aborting\<close> and ends with
  \<open>sys.exit(1)\<close>. The file system is the one it started with, no external process has been
  started, and the exit status of the script is not zero.
\<close>

theorem declined_build_aborts:
  assumes "nonempty_dir DIST_PATH w" and "\<not> confirm_reply e"
  shows "build e False version w =
           (Inl (SystemExit 1),
            w\<lparr>trace := trace w @
               [Confirm ''dist is not empty - delete contents?'', Stdout ''Aborting'']\<rparr>)
         \<and> exit_status (fst (build e False version w)) \<noteq> 0"
  using assms
  by (simp add: build_def andthen_def confirm_def echo_def raise_def emit_def exit_status_def
      DIST_PATH_def)

theorem declined_build_aborts_witness:
  "build \<lparr>confirm_reply = False, run_process = (\<lambda>args f. Exited 0 f),
          http_get = (\<lambda>url. None), environ = []\<rparr> False ''auto''
     \<lparr>fs = [DIST_PATH \<mapsto> Dir [''pyo365-0.1.0.tar.gz'']], trace = []\<rparr> =
   (Inl (SystemExit 1),
    \<lparr>fs = [DIST_PATH \<mapsto> Dir [''pyo365-0.1.0.tar.gz'']],
     trace = [Confirm ''dist is not empty - delete contents?'', Stdout ''Aborting'']\<rparr>)"
  using declined_build_aborts [of
    "\<lparr>fs = [DIST_PATH \<mapsto> Dir [''pyo365-0.1.0.tar.gz'']], trace = []\<rparr>"
    "\<lparr>confirm_reply = False, run_process = (\<lambda>args f. Exited 0 f),
      http_get = (\<lambda>url. None), environ = []\<rparr>" "''auto''"]
  by (simp add: nonempty_dir_def path_exists_def glob_star_def)

lemma forced_build_first_tool:
  assumes "nonempty_dir DIST_PATH w" and "build e True version w = (r, w')"
  shows "case first_exec (new_events w w') of
           None \<Rightarrow> r \<noteq> Inr ()
         | Some (before, args, snap) \<Rightarrow>
             before =
               [Rename DIST_PATH DIST_PATH_DELETE, Rmtree DIST_PATH_DELETE, Mkdir DIST_PATH] @
               (if version = [] then [] else [Write VERSION_FILE_NAME])
             \<and> args = bdist_wheel_args
             \<and> snap DIST_PATH = Some (Dir [])
             \<and> snap DIST_PATH_DELETE = None"
proof -
  obtain r1 w1 where c: "clear_dist w = (r1, w1)" by (cases "clear_dist w")
  from clear_dist_cases [OF assms(1) c] show ?thesis
  proof (elim disjE conjE exE)
    fix x
    assume "r1 = Inl x" and "w1 = w\<lparr>trace := trace w @ [Rename DIST_PATH DIST_PATH_DELETE]\<rparr>"
    with assms c show ?thesis
      by (auto simp: andthen_assoc_build andthen_def new_events_def)
  next
    assume r1: "r1 = Inr ()"
      and w1: "w1 = w\<lparr>fs := (fs w)(DIST_PATH_DELETE := None, DIST_PATH \<mapsto> Dir []),
                 trace := trace w @ [Rename DIST_PATH DIST_PATH_DELETE, Rmtree DIST_PATH_DELETE,
                                     Mkdir DIST_PATH]\<rparr>"
    show ?thesis
    proof (cases "version = []")
      case True
      obtain rest where "trace (snd (build_tools e w1)) = trace w1 @ Exec bdist_wheel_args (fs w1) # rest"
        using build_tools_trace by blast
      with assms c r1 w1 True show ?thesis
        by (auto simp: andthen_assoc_build andthen_def skip_def new_events_def names_distinct)
    next
      case False
      obtain r2 w2 where v: "build_version_file version w1 = (r2, w2)"
        by (cases "build_version_file version w1")
      from build_version_file_cases [OF v] show ?thesis
      proof (elim disjE conjE exE)
        fix x
        assume "r2 = Inl x" and "w2 = w1"
        with assms c r1 w1 False v show ?thesis
          by (auto simp: andthen_assoc_build andthen_def new_events_def)
      next
        fix d
        assume r2: "r2 = Inr ()"
          and f2: "fs w2 = (fs w1)(VERSION_FILE_NAME \<mapsto> File (JsonDoc (version_doc d)))"
          and t2: "trace w2 = trace w1 @ [Write VERSION_FILE_NAME]"
        obtain rest where "trace (snd (build_tools e w2)) = trace w2 @ Exec bdist_wheel_args (fs w2) # rest"
          using build_tools_trace by blast
        with assms c r1 w1 False v r2 f2 t2 show ?thesis
          by (auto simp: andthen_assoc_build andthen_def new_events_def names_distinct)
      qed
    qed
  qed
qed

lemma after_preparation_extends:
  "\<exists>evs. trace (snd (andthen (if version \<noteq> [] then build_version_file version else skip)
                        (\<lambda>_. build_tools e) w1)) = trace w1 @ evs"
proof (cases "version = []")
  case True
  then show ?thesis
    using build_tools_trace [of e w1] by (auto simp: andthen_def skip_def)
next
  case False
  obtain r2 w2 where v: "build_version_file version w1 = (r2, w2)"
    by (cases "build_version_file version w1")
  from build_version_file_cases [OF v] show ?thesis
  proof (elim disjE conjE exE)
    fix x
    assume "r2 = Inl x" and "w2 = w1"
    with False v show ?thesis by (simp add: andthen_def)
  next
    fix d
    assume "r2 = Inr ()" and "trace w2 = trace w1 @ [Write VERSION_FILE_NAME]"
    with False v build_tools_trace [of e w2] show ?thesis
      by (auto simp: andthen_def)
  qed
qed

lemma forced_build_clears_first:
  assumes "nonempty_dir DIST_PATH w" and "build e True version w = (r, w')"
    and "fs w DIST_PATH_DELETE = None \<or> fs w DIST_PATH_DELETE = Some (Dir [])"
  shows "take 3 (new_events w w') =
           [Rename DIST_PATH DIST_PATH_DELETE, Rmtree DIST_PATH_DELETE, Mkdir DIST_PATH]"
proof -
  define w1 where "w1 = w\<lparr>fs := (fs w)(DIST_PATH_DELETE := None, DIST_PATH \<mapsto> Dir []),
             trace := trace w @ [Rename DIST_PATH DIST_PATH_DELETE, Rmtree DIST_PATH_DELETE,
                                 Mkdir DIST_PATH]\<rparr>"
  have "clear_dist w = (Inr (), w1)"
    unfolding w1_def by (rule clear_dist_free [OF assms(1,3)])
  with assms(1,2) have "w' = snd (andthen (if version \<noteq> [] then build_version_file version else skip)
                        (\<lambda>_. build_tools e) w1)"
    by (simp add: andthen_assoc_build andthen_def)
  with after_preparation_extends [of version e w1] obtain evs where "trace w' = trace w1 @ evs"
    by auto
  then show ?thesis by (simp add: new_events_def w1_def)
qed

text \<open>
  C2. Forced clearing: when the output directory is not empty and the force flag is on, a
  run of \<open>build\<close> that starts an external build tool has, before the first one, renamed the
  directory, removed the renamed tree and created the directory again, in this order and
  without a prompt (and written the version file, unless the version is empty); the first
  tool is the wheel build and it finds the output directory present and empty, and no
  renamed copy. A run that starts no tool has not returned normally. Whenever nothing but
  an empty directory occupies the name of the renamed copy, the run begins with these
  three steps.
\<close>

theorem forced_build_clears_dist:
  assumes "nonempty_dir DIST_PATH w" and "build e True version w = (r, w')"
  shows "(case first_exec (new_events w w') of
            None \<Rightarrow> r \<noteq> Inr ()
          | Some (before, args, snap) \<Rightarrow>
              before =
                [Rename DIST_PATH DIST_PATH_DELETE, Rmtree DIST_PATH_DELETE, Mkdir DIST_PATH] @
                (if version = [] then [] else [Write VERSION_FILE_NAME])
              \<and> args = bdist_wheel_args
              \<and> snap DIST_PATH = Some (Dir [])
              \<and> snap DIST_PATH_DELETE = None)
       \<and> (fs w DIST_PATH_DELETE = None \<or> fs w DIST_PATH_DELETE = Some (Dir []) \<longrightarrow>
            take 3 (new_events w w') =
              [Rename DIST_PATH DIST_PATH_DELETE, Rmtree DIST_PATH_DELETE, Mkdir DIST_PATH])"
  using forced_build_first_tool [OF assms] forced_build_clears_first [OF assms]
  by blast

theorem forced_build_clears_dist_witness:
  "(case first_exec
          (new_events \<lparr>fs = [DIST_PATH \<mapsto> Dir [''pyo365-0.1.0.tar.gz'']], trace = []\<rparr>
             (snd (build
                \<lparr>confirm_reply = False,
                  run_process = (\<lambda>args f. Exited 0 (f(DIST_PATH \<mapsto> Dir [''pyo365-0.1.1.tar.gz'']))),
                  http_get = (\<lambda>url. None), environ = []\<rparr>
                True ''0.1.1''
                \<lparr>fs = [DIST_PATH \<mapsto> Dir [''pyo365-0.1.0.tar.gz'']], trace = []\<rparr>))) of
     None \<Rightarrow> False
   | Some (before, args, snap) \<Rightarrow>
       before = [Rename DIST_PATH DIST_PATH_DELETE, Rmtree DIST_PATH_DELETE, Mkdir DIST_PATH,
                 Write VERSION_FILE_NAME]
       \<and> args = bdist_wheel_args
       \<and> snap DIST_PATH = Some (Dir [])
       \<and> snap DIST_PATH_DELETE = None)
   \<and> take 3
        (new_events \<lparr>fs = [DIST_PATH \<mapsto> Dir [''pyo365-0.1.0.tar.gz'']], trace = []\<rparr>
           (snd (build
              \<lparr>confirm_reply = False,
                run_process = (\<lambda>args f. Exited 0 (f(DIST_PATH \<mapsto> Dir [''pyo365-0.1.1.tar.gz'']))),
                http_get = (\<lambda>url. None), environ = []\<rparr>
              True ''0.1.1''
              \<lparr>fs = [DIST_PATH \<mapsto> Dir [''pyo365-0.1.0.tar.gz'']], trace = []\<rparr>))) =
       [Rename DIST_PATH DIST_PATH_DELETE, Rmtree DIST_PATH_DELETE, Mkdir DIST_PATH]"
proof -
  let ?w = "\<lparr>fs = [DIST_PATH \<mapsto> Dir [''pyo365-0.1.0.tar.gz'']], trace = []\<rparr>"
  let ?e = "\<lparr>confirm_reply = False,
             run_process = (\<lambda>args f. Exited 0 (f(DIST_PATH \<mapsto> Dir [''pyo365-0.1.1.tar.gz'']))),
             http_get = (\<lambda>url. None), environ = []\<rparr>"
  have ne: "nonempty_dir DIST_PATH ?w"
    by (simp add: nonempty_dir_def path_exists_def glob_star_def)
  have free: "fs ?w DIST_PATH_DELETE = None"
    by (simp add: names_distinct)
  have reached: "first_exec (new_events ?w (snd (build ?e True ''0.1.1'' ?w))) \<noteq> None"
    by (simp add: run_defs new_events_def)
  show ?thesis
    using forced_build_clears_dist [OF ne, of ?e "''0.1.1''"
        "fst (build ?e True ''0.1.1'' ?w)" "snd (build ?e True ''0.1.1'' ?w)"] reached free
    by (auto split: option.splits)
qed

text \<open>
  C10. No preparation for an absent or empty output directory: when the output directory
  does not exist or has no entries, a run of \<open>build\<close> adds no prompt, rename, removal or
  directory creation to the trace. If it starts an external build tool, the only event
  before the first one is the write of the version file (none for an empty version), the
  first tool is the wheel build, and it finds the output directory and the name used for
  the renamed copy exactly as they were at the start, so an absent directory is still
  absent. A run that starts no tool has not returned normally.
\<close>

theorem build_without_preparation:
  assumes "fs w DIST_PATH = None \<or> fs w DIST_PATH = Some (Dir [])"
    and "build e force version w = (r, w')"
  shows "filter is_preparation (new_events w w') = []
       \<and> (case first_exec (new_events w w') of
            None \<Rightarrow> r \<noteq> Inr ()
          | Some (before, args, snap) \<Rightarrow>
              before = (if version = [] then [] else [Write VERSION_FILE_NAME])
              \<and> args = bdist_wheel_args
              \<and> snap DIST_PATH = fs w DIST_PATH
              \<and> snap DIST_PATH_DELETE = fs w DIST_PATH_DELETE)"
proof -
  from assms(1) have ne: "\<not> nonempty_dir DIST_PATH w"
    by (auto simp: nonempty_dir_iff)
  show ?thesis
  proof (cases "version = []")
    case True
    obtain rest where "trace (snd (build_tools e w)) = trace w @ Exec bdist_wheel_args (fs w) # rest"
      and "filter is_preparation rest = []"
      using build_tools_trace by blast
    with assms(2) ne True show ?thesis
      by (auto simp: andthen_assoc_build andthen_def skip_def new_events_def)
  next
    case False
    obtain r2 w2 where v: "build_version_file version w = (r2, w2)"
      by (cases "build_version_file version w")
    from build_version_file_cases [OF v] show ?thesis
    proof (elim disjE conjE exE)
      fix x
      assume "r2 = Inl x" and "w2 = w"
      with assms(2) ne False v show ?thesis
        by (auto simp: andthen_assoc_build andthen_def skip_def new_events_def)
    next
      fix d
      assume r2: "r2 = Inr ()"
        and f2: "fs w2 = (fs w)(VERSION_FILE_NAME \<mapsto> File (JsonDoc (version_doc d)))"
        and t2: "trace w2 = trace w @ [Write VERSION_FILE_NAME]"
      obtain rest where "trace (snd (build_tools e w2)) = trace w2 @ Exec bdist_wheel_args (fs w2) # rest"
        and "filter is_preparation rest = []"
        using build_tools_trace by blast
      with assms(2) ne False v r2 f2 t2 show ?thesis
        by (auto simp: andthen_assoc_build andthen_def skip_def new_events_def names_distinct)
    qed
  qed
qed

theorem build_without_preparation_witness:
  "filter is_preparation
     (new_events \<lparr>fs = Map.empty, trace = []\<rparr>
        (snd (build
           \<lparr>confirm_reply = False,
             run_process = (\<lambda>args f. Exited 0 (f(DIST_PATH \<mapsto> Dir [''pyo365-0.1.1.tar.gz'']))),
             http_get = (\<lambda>url. None), environ = []\<rparr>
           False ''0.1.1'' \<lparr>fs = Map.empty, trace = []\<rparr>))) = []
   \<and> (case first_exec
          (new_events \<lparr>fs = Map.empty, trace = []\<rparr>
             (snd (build
                \<lparr>confirm_reply = False,
                  run_process = (\<lambda>args f. Exited 0 (f(DIST_PATH \<mapsto> Dir [''pyo365-0.1.1.tar.gz'']))),
                  http_get = (\<lambda>url. None), environ = []\<rparr>
                False ''0.1.1'' \<lparr>fs = Map.empty, trace = []\<rparr>))) of
        None \<Rightarrow> False
      | Some (before, args, snap) \<Rightarrow>
          before = [Write VERSION_FILE_NAME] \<and> args = bdist_wheel_args \<and> snap DIST_PATH = None)"
proof -
  let ?w = "\<lparr>fs = Map.empty, trace = []\<rparr>"
  let ?e = "\<lparr>confirm_reply = False,
             run_process = (\<lambda>args f. Exited 0 (f(DIST_PATH \<mapsto> Dir [''pyo365-0.1.1.tar.gz'']))),
             http_get = (\<lambda>url. None), environ = []\<rparr>"
  have absent: "fs ?w DIST_PATH = None \<or> fs ?w DIST_PATH = Some (Dir [])"
    by simp
  have reached: "first_exec (new_events ?w (snd (build ?e False ''0.1.1'' ?w))) \<noteq> None"
    by (simp add: run_defs new_events_def)
  show ?thesis
    using build_without_preparation [OF absent, of ?e False "''0.1.1''"
        "fst (build ?e False ''0.1.1'' ?w)" "snd (build ?e False ''0.1.1'' ?w)"] reached
    by (auto split: option.splits)
qed

text \<open>
  C9. An explicit version is stored as given: for a version string that is neither empty
  nor \<open>auto\<close>, when the run is not stopped during directory preparation (a non-empty
  output directory is cleared with the force flag or the operator's consent, and nothing
  non-empty occupies the name of the renamed copy), the version file is not a directory
  and the external tools leave the version file alone, the version file after \<open>build\<close>
  holds exactly \<open>{"version": version}\<close>, whatever the exit statuses of the tools are.
\<close>

theorem explicit_version_stored:
  assumes "version \<noteq> []" and "version \<noteq> ''auto''"
    and "nonempty_dir DIST_PATH w \<longrightarrow>
           (force \<or> confirm_reply e) \<and>
           (fs w DIST_PATH_DELETE = None \<or> fs w DIST_PATH_DELETE = Some (Dir []))"
    and "\<forall>es. fs w VERSION_FILE_NAME \<noteq> Some (Dir es)"
    and "\<forall>args f c f'. run_process e args f = Exited c f' \<longrightarrow>
           f' VERSION_FILE_NAME = f VERSION_FILE_NAME"
  shows "fs (snd (build e force version w)) VERSION_FILE_NAME =
           Some (File (JsonDoc (JObj [(''version'', JStr version)])))"
proof -
  define w1 where "w1 = (if nonempty_dir DIST_PATH w then
       w\<lparr>fs := (fs w)(DIST_PATH_DELETE := None, DIST_PATH \<mapsto> Dir []),
         trace := trace w @ (if force then [] else [Confirm (DIST_PATH @ '' is not empty - delete contents?'')]) @
            [Rename DIST_PATH DIST_PATH_DELETE, Rmtree DIST_PATH_DELETE, Mkdir DIST_PATH]\<rparr>
       else w)"
  define w2 where "w2 = (emit (Write VERSION_FILE_NAME) w1)
       \<lparr>fs := (fs w1)(VERSION_FILE_NAME \<mapsto> File (JsonDoc (version_doc version)))\<rparr>"
  have v1: "fs w1 VERSION_FILE_NAME = fs w VERSION_FILE_NAME"
    by (simp add: w1_def names_distinct)
  have dump: "json_dump VERSION_FILE_NAME (version_doc version) w1 = (Inr (), w2)"
    using assms(4) v1 by (auto simp: json_dump_def w2_def split: option.splits node.splits)
  have "build e force version w = build_tools e w2"
  proof (cases "nonempty_dir DIST_PATH w")
    case True
    with assms(3) have free: "fs w DIST_PATH_DELETE = None \<or> fs w DIST_PATH_DELETE = Some (Dir [])"
      and go: "force \<or> confirm_reply e" by simp_all
    have ne': "nonempty_dir DIST_PATH (emit ev w)" for ev
      using True by (simp add: nonempty_dir_iff emit_def)
    show ?thesis
    proof (cases force)
      case True
      with \<open>nonempty_dir DIST_PATH w\<close> clear_dist_free [OF \<open>nonempty_dir DIST_PATH w\<close> free] assms(1,2) dump
      show ?thesis
        by (simp add: andthen_assoc_build andthen_def build_version_file_def w1_def)
    next
      case False
      with go have yes: "confirm_reply e" by simp
      have "clear_dist (emit (Confirm (DIST_PATH @ '' is not empty - delete contents?'')) w) = (Inr (), w1)"
        using clear_dist_free [OF ne', of "Confirm (DIST_PATH @ '' is not empty - delete contents?'')"] free True False
        by (simp add: emit_def w1_def)
      with True False yes assms(1,2) dump show ?thesis
        by (simp add: andthen_assoc_build andthen_def build_version_file_def confirm_def)
    qed
  next
    case False
    with assms(1,2) dump show ?thesis
      by (simp add: andthen_assoc_build andthen_def build_version_file_def skip_def w1_def)
  qed
  then show ?thesis
    using build_tools_keeps [OF assms(5), of w2]
    by (simp add: w2_def version_doc_def)
qed

theorem explicit_version_stored_witness:
  "fs (snd (build
         \<lparr>confirm_reply = False,
           run_process = (\<lambda>args f. Exited 0 (f(DIST_PATH \<mapsto> Dir [''pyo365-2.0.0.tar.gz'']))),
           http_get = (\<lambda>url. None), environ = []\<rparr>
         True ''2.0.0''
         \<lparr>fs = [DIST_PATH \<mapsto> Dir [''pyo365-1.9.9.tar.gz''],
                VERSION_FILE_NAME \<mapsto> File (JsonDoc (JObj [(''version'', JStr ''1.9.9'')]))],
           trace = []\<rparr>)) VERSION_FILE_NAME =
   Some (File (JsonDoc (JObj [(''version'', JStr ''2.0.0'')])))"
  using explicit_version_stored [of "''2.0.0''"
    "\<lparr>fs = [DIST_PATH \<mapsto> Dir [''pyo365-1.9.9.tar.gz''],
            VERSION_FILE_NAME \<mapsto> File (JsonDoc (JObj [(''version'', JStr ''1.9.9'')]))],
       trace = []\<rparr>"
    True
    "\<lparr>confirm_reply = False,
       run_process = (\<lambda>args f. Exited 0 (f(DIST_PATH \<mapsto> Dir [''pyo365-2.0.0.tar.gz'']))),
       http_get = (\<lambda>url. None), environ = []\<rparr>"]
  by (simp add: names_distinct)

subsection \<open>The upload operation\<close>



text \<open>
  C5. The upload step does not look at the exit status: when \<open>upload\<close> reaches the upload
  step (rebuild off and artifacts present, or rebuild on and \<open>build\<close> returned normally in
  world \<open>w1\<close>) and the upload process ends with any status \<open>code\<close>, \<open>upload\<close> starts the
  process with the inherited environment, waits for it and returns normally, and the
  exit status of the script is 0.
\<close>

theorem upload_ignores_exit_status:
  assumes "if rebuild then build e True version w = (Inr (), w1)
           else nonempty_dir DIST_PATH w \<and> w1 = w"
    and "run_process e (if release then twine_release_args else twine_test_args) (fs w1) =
           Exited code fs'"
  shows "upload e release rebuild version w =
           (Inr (),
            w1\<lparr>fs := fs',
               trace := trace w1 @
                 [Spawn (if release then twine_release_args else twine_test_args) (environ e)
                    (fs w1), Wait]\<rparr>)
         \<and> exit_status (fst (upload e release rebuild version w)) = 0"
  using assms
  by (auto simp: upload_def twine_upload_def andthen_def Popen_def wait_def skip_def emit_def
      nonempty_dir_def exit_status_def Let_def split: if_splits)

theorem upload_ignores_exit_status_witness:
  "upload \<lparr>confirm_reply = False, run_process = (\<lambda>args f. Exited 1 f),
           http_get = (\<lambda>url. None), environ = [(''TWINE_USERNAME'', ''me'')]\<rparr>
     False False ''auto''
     \<lparr>fs = [DIST_PATH \<mapsto> Dir [''pyo365-0.1.0.tar.gz'']], trace = []\<rparr> =
   (Inr (),
    \<lparr>fs = [DIST_PATH \<mapsto> Dir [''pyo365-0.1.0.tar.gz'']],
     trace = [Spawn twine_test_args [(''TWINE_USERNAME'', ''me'')]
                [DIST_PATH \<mapsto> Dir [''pyo365-0.1.0.tar.gz'']], Wait]\<rparr>)"
  using upload_ignores_exit_status [of False
    "\<lparr>confirm_reply = False, run_process = (\<lambda>args f. Exited 1 f),
      http_get = (\<lambda>url. None), environ = [(''TWINE_USERNAME'', ''me'')]\<rparr>"
    "''auto''"
    "\<lparr>fs = [DIST_PATH \<mapsto> Dir [''pyo365-0.1.0.tar.gz'']], trace = []\<rparr>"
    "\<lparr>fs = [DIST_PATH \<mapsto> Dir [''pyo365-0.1.0.tar.gz'']], trace = []\<rparr>"
    False 1 "[DIST_PATH \<mapsto> Dir [''pyo365-0.1.0.tar.gz'']]"]
  by (simp add: nonempty_dir_def path_exists_def glob_star_def)

subsection \<open>The listing operation\<close>



lemma artifact_gets:
  assumes "artifact fmt"
  shows "dict_get fmt ''packagetype'' JNull = Inr (JStr (the (label_of fmt)))"
    and "dict_get fmt ''upload_time'' JNull = Inr (JStr (the (time_of fmt)))"
  using assms
  by (auto simp: artifact_def label_of_def time_of_def dict_get_def
      split: json.splits option.splits)

lemma scan_release_artifacts:
  "list_all artifact fmts \<Longrightarrow>
   scan_release fmts acc d =
     Inr (acc @ map (\<lambda>fmt. JStr (the (label_of fmt))) fmts,
          if fmts = [] then d else JStr (the (time_of (last fmts))))"
  by (induction fmts arbitrary: acc d) (simp_all add: artifact_gets)

lemma join_strs_JStr: "join_strs (map (\<lambda>x. JStr (f x)) xs) = Inr (map f xs)"
  by (induction xs) simp_all

lemma release_line_artifacts:
  assumes "fmts \<noteq> []" and "list_all artifact fmts"
  shows "release_line version (JArr fmts) = Inr (expected_line version fmts)"
  using assms
  by (simp add: release_line_def py_iter_def scan_release_artifacts join_strs_JStr
      format_right_def expected_line_def)

lemma print_releases_released:
  "list_all released items \<Longrightarrow>
   print_releases items w = (Inr (), w\<lparr>trace := trace w @ map (\<lambda>item. Stdout (item_line item)) items\<rparr>)"
proof (induction items arbitrary: w)
  case Nil
  then show ?case by simp
next
  case (Cons item items)
  obtain version release where item: "item = (version, release)" by (cases item)
  with Cons.prems obtain fmts where r: "release = JArr fmts" "fmts \<noteq> []" "list_all artifact fmts"
    by (auto simp: released_def split: json.splits)
  from Cons.prems have "list_all released items" by simp
  from Cons.IH [OF this] item r show ?case
    by (simp add: release_line_artifacts item_line_def emit_def)
qed

text \<open>
  On a response in which every version is released, the listing prints one line per
  version, in document order, each with the upload time of the last artifact scanned and
  the labels in order of appearance; for the release \<open>1.0.0\<close> with a source archive and a
  wheel this is the line below.
\<close>

lemma list_releases_released:
  assumes "http_get e (PYPI_URL PYPI_PACKAGE_NAME) = Some r"
    and "response_ok r"
    and "body r = Some (JObj kvs)"
    and "map_of kvs ''releases'' = Some (JObj items)"
    and "items \<noteq> []"
    and "list_all released items"
  shows "list_releases e w =
           (Inr (),
            w\<lparr>trace := trace w @ Get (PYPI_URL PYPI_PACKAGE_NAME) #
                 map (\<lambda>item. Stdout (item_line item)) items\<rparr>)"
  using assms
  by (simp add: list_releases_def Let_def response_json_def dict_get_def truthy_def
      dict_items_def print_releases_released emit_def)

lemma example_line:
  "item_line (''1.0.0'', example_release) =
     ''1.0.0     2020-01-01T00:05:00      sdist | bdist_wheel''"
  by code_simp

lemma example_released: "released (''1.0.0'', example_release)"
  by (simp add: released_def example_release_def artifact_def time_of_def label_of_def)

text \<open>
  C6. The listing is to print, for every version of a successful response, the upload time
  of the last artifact of its list and the labels joined by \<open>' | '\<close> in list order, and so
  for \<open>1.0.0\<close> the time \<open>2020-01-01T00:05:00\<close> and the labels \<open>sdist | bdist_wheel\<close>. The
  script does not print that line when a version without artifacts comes first: for the
  response \<open>{"releases": {"0.9.0": [], "1.0.0": [sdist, wheel]}}\<close> the loop leaves
  \<open>published_on_date\<close> at \<open>None\<close> for \<open>0.9.0\<close>, formatting it with \<open>{:>15}\<close> raises
  \<open>TypeError\<close>, and the run ends with nothing printed.
\<close>

theorem listing_fails_on_empty_release:
  "list_releases
     \<lparr>confirm_reply = False, run_process = (\<lambda>args f. Exited 0 f),
       http_get = (\<lambda>url. Some \<lparr>status_code = 200,
          body = Some (JObj [(''releases'',
                   JObj [(''0.9.0'', JArr []), (''1.0.0'', example_release)])])\<rparr>),
       environ = []\<rparr>
     \<lparr>fs = Map.empty, trace = []\<rparr> =
   (Inl TypeError, \<lparr>fs = Map.empty, trace = [Get ''https://pypi.org/pypi/pyo365/json'']\<rparr>)"
  by (simp add: list_releases_def Let_def response_ok_def response_json_def dict_get_def
      truthy_def dict_items_def release_line_def py_iter_def format_right_def emit_def
      PYPI_URL_def PYPI_PACKAGE_NAME_def)

end
